theory Spec2Isabelle
  imports Complex_Main
begin

section \<open>Python values, Keras layers and the graph under construction\<close>

text \<open>
  The module \<^verbatim>\<open>dl4ds/models/sp_preups.py\<close> assembles Keras graphs. The blocks it wires
  together (\<^verbatim>\<open>ConvBlock\<close>, \<^verbatim>\<open>EncoderBlock\<close>, \<^verbatim>\<open>Conv2D\<close>, ...) live outside the module, so a
  layer is kept symbolically: its class name, its positional arguments and its keyword
  arguments, exactly as the call site writes them. An argument the call site omits is
  absent from the list (the block's own default then applies).
\<close>

datatype pyval =
    PyNone
  | PyBool bool
  | PyInt int
  | PyFloat rat
  | PyStr string
  | PyTuple "pyval list"

datatype py_error =
    ArgumentError pyval "pyval list"
  | OverflowError
  | ZeroDivisionError
  | IndexError
  | UnboundLocalError

datatype layer = Layer (cls: string) (args: "pyval list") (kwargs: "(string \<times> pyval) list")

text \<open>
  A value flowing through a builder is the output of a layer call (identified by the
  layer and the inputs it was called on), one component of a tuple-valued output, or a
  layer object that was constructed but never called.
\<close>

datatype node =
    Apply layer "node list"
  | Item nat node
  | Unapplied layer

type_synonym call = "layer \<times> node list"

text \<open>
  The effects of the module are the graph nodes that layer calls create and the lines
  that \<^verbatim>\<open>print\<close> writes. Both are threaded through every function as a \<open>world\<close>.
\<close>

record world =
  graph :: "call list"
  stdout :: "string list"

definition empty_world :: world where
  "empty_world = \<lparr>graph = [], stdout = []\<rparr>"

definition call_layer :: "layer \<Rightarrow> node list \<Rightarrow> world \<Rightarrow> node \<times> world" where
  "call_layer l xs w = (Apply l xs, w\<lparr>graph := graph w @ [(l, xs)]\<rparr>)"

definition print :: "string \<Rightarrow> world \<Rightarrow> world" where
  "print msg w = w\<lparr>stdout := stdout w @ [msg]\<rparr>"

definition calls_since :: "world \<Rightarrow> world \<Rightarrow> call list" where
  "calls_since w0 w = drop (length (graph w0)) (graph w)"

record keras_model =
  inputs :: "node list"
  outputs :: node
  name :: string

subsection \<open>\<^verbatim>\<open>str\<close> on integers\<close>

definition digit :: "nat \<Rightarrow> char" where
  "digit d = char_of (48 + d)"

fun str_nat :: "nat \<Rightarrow> string" where
  "str_nat n = (if n < 10 then [digit n] else str_nat (n div 10) @ [digit (n mod 10)])"

declare str_nat.simps [simp del]

definition str :: "int \<Rightarrow> string" where
  "str i = (if i < 0 then CHR ''-'' # str_nat (nat (- i)) else str_nat (nat i))"

section \<open>The depth validator \<^verbatim>\<open>_check_nblocks\<close>\<close>

text \<open>
  \<^verbatim>\<open>
  def _check_nblocks(shape, power):
      while shape[0] // 2**power < 2 or shape[1] // 2**power < 2:
          msg = f'`n_blocks` is too large, cannot downsample {power} times '
          msg += f'given the input grid size. Setting `n_blocks` to {power-1}'
          print(msg)
          power -= 1
      return power
  \<close>
  For \<open>power \<ge> 0\<close> the expression \<^verbatim>\<open>2**power\<close> is an integer and \<^verbatim>\<open>//\<close> is integer floor
  division. Nothing stops the loop at 0: for \<open>power < 0\<close> Python evaluates \<^verbatim>\<open>2**power\<close> as
  the binary64 float \<open>2\<^sup>p\<close>, which is exact down to \<open>2\<^sup>-\<^sup>1\<^sup>0\<^sup>7\<^sup>4\<close> and \<open>0.0\<close> below, and
  \<^verbatim>\<open>n // 2**power\<close> converts \<open>n\<close> to a float first. Three things can then happen, in this
  order: the conversion of an integer of magnitude \<open>2\<^sup>1\<^sup>0\<^sup>2\<^sup>4 - 2\<^sup>9\<^sup>7\<^sup>0\<close> or more raises
  \<^verbatim>\<open>OverflowError\<close> (the exponent is converted before the dividend); a divisor \<open>0.0\<close> raises
  \<^verbatim>\<open>ZeroDivisionError\<close>; otherwise the quotient is the float nearest to \<open>n \<sqdot> 2\<^sup>-\<^sup>p\<close> (or an
  infinity), and comparing its floor with 2 gives the same answer as comparing the exact
  product, because scaling by a power of two is exact and rounding \<open>n\<close> keeps its sign and
  keeps it at least 1 in magnitude. The variable \<^verbatim>\<open>power\<close> is written \<open>pw\<close> below
  (\<open>power\<close> is HOL's exponentiation), and the function loses its leading underscore.
\<close>

definition float_overflows :: "int \<Rightarrow> bool" where
  "float_overflows n = (2 ^ 1024 - 2 ^ 970 \<le> \<bar>n\<bar>)"

definition floordiv_pow2_lt2 :: "int \<Rightarrow> int \<Rightarrow> py_error + bool" where
  "floordiv_pow2_lt2 n pw =
     (if 0 \<le> pw then Inr (n div 2 ^ nat pw < 2)
      else if float_overflows pw then Inl OverflowError
      else if float_overflows n then Inl OverflowError
      else if pw < - 1074 then Inl ZeroDivisionError
      else Inr (n * 2 ^ nat (- pw) < 2))"

text \<open>The loop condition; \<^verbatim>\<open>or\<close> does not evaluate its right operand when the left is true.\<close>

definition nblocks_too_large :: "int \<times> int \<Rightarrow> int \<Rightarrow> py_error + bool" where
  "nblocks_too_large shape pw =
     (case floordiv_pow2_lt2 (fst shape) pw of
        Inl e \<Rightarrow> Inl e
      | Inr True \<Rightarrow> Inr True
      | Inr False \<Rightarrow> floordiv_pow2_lt2 (snd shape) pw)"

definition nblocks_msg :: "int \<Rightarrow> string" where
  "nblocks_msg pw =
     (''`n_blocks` is too large, cannot downsample '' @ str pw @ '' times '')
     @ (''given the input grid size. Setting `n_blocks` to '' @ str (pw - 1))"

function check_nblocks :: "int \<times> int \<Rightarrow> int \<Rightarrow> world \<Rightarrow> (py_error + int) \<times> world" where
  "check_nblocks shape pw w =
     (case nblocks_too_large shape pw of
        Inl e \<Rightarrow> (Inl e, w)
      | Inr True \<Rightarrow> check_nblocks shape (pw - 1) (print (nblocks_msg pw) w)
      | Inr False \<Rightarrow> (Inr pw, w))"
  by pat_completeness auto
termination
  apply (relation "measure (\<lambda>(shape, pw, w). nat (pw + 1075))")
   apply simp
  apply (auto simp: nblocks_too_large_def floordiv_pow2_lt2_def
      split: sum.splits bool.splits if_splits)
  done

declare check_nblocks.simps [simp del]

text \<open>
  The two dimension constraints at depth \<open>e\<close>: \<^verbatim>\<open>shape[0] // 2**e >= 2\<close> and
  \<^verbatim>\<open>shape[1] // 2**e >= 2\<close>, for \<open>e \<ge> 0\<close>.
\<close>

definition depth_fits :: "int \<times> int \<Rightarrow> int \<Rightarrow> bool" where
  "depth_fits shape e = (2 \<le> fst shape div 2 ^ nat e \<and> 2 \<le> snd shape div 2 ^ nat e)"

section \<open>Argument validators\<close>

text \<open>
  Both builders take the same arguments; \<^verbatim>\<open>unet_pin\<close> has \<^verbatim>\<open>decoder_upsampling\<close> in
  addition. \<^verbatim>\<open>activation\<close>, \<^verbatim>\<open>normalization\<close> and \<^verbatim>\<open>output_activation\<close> are only handed on
  to the blocks, so they stay Python values; \<^verbatim>\<open>dropout_rate\<close> is compared with 0 and handed
  on, and is kept as a rational number.
\<close>

record pin_args =
  backbone_block :: string
  n_channels :: int
  n_aux_channels :: int
  n_filters :: int
  n_blocks :: int
  hr_size :: "int \<times> int"
  n_channels_out :: int
  activation :: pyval
  dropout_rate :: rat
  dropout_variant :: "string option"
  normalization :: pyval
  attention :: bool
  output_activation :: pyval
  localcon_layer :: bool

record unet_args = pin_args +
  decoder_upsampling :: string

definition py_opt_str :: "string option \<Rightarrow> pyval" where
  "py_opt_str v = (case v of None \<Rightarrow> PyNone | Some s \<Rightarrow> PyStr s)"

text \<open>
  Modelled from the spec: \<^verbatim>\<open>checkarg_backbone\<close> is imported from \<^verbatim>\<open>dl4ds/utils.py\<close>, which
  is not among the sources. The spec has it map the argument to the canonical value of a
  closed enumeration (plain-convolutional, residual, dense) or raise an argument error
  naming the invalid value and the accepted values. The canonical values are the strings
  the builders compare \<^verbatim>\<open>backbone_block\<close> with.
\<close>

definition BACKBONE_BLOCKS :: "string list" where
  "BACKBONE_BLOCKS = [''convnet'', ''resnet'', ''densenet'']"

definition checkarg_backbone :: "string \<Rightarrow> py_error + string" where
  "checkarg_backbone b =
     (if b \<in> set BACKBONE_BLOCKS then Inr b
      else Inl (ArgumentError (PyStr b) (map PyStr BACKBONE_BLOCKS)))"

text \<open>
  Modelled from the spec: \<^verbatim>\<open>checkarg_dropout_variant\<close> is imported from \<^verbatim>\<open>dl4ds/utils.py\<close>,
  which is not among the sources. The spec describes it like \<^verbatim>\<open>checkarg_backbone\<close>, over
  the dropout variants. The canonical values are the ones \<^verbatim>\<open>net_pin\<close> dispatches on:
  \<^verbatim>\<open>None\<close> (which selects the Bernoulli \<^verbatim>\<open>Dropout\<close> layer) and five strings.
\<close>

definition DROPOUT_VARIANTS :: "string option list" where
  "DROPOUT_VARIANTS =
     [None, Some ''gaussian'', Some ''spatial'', Some ''mcdrop'', Some ''mcgaussiandrop'',
      Some ''mcspatialdrop'']"

definition checkarg_dropout_variant :: "string option \<Rightarrow> py_error + string option" where
  "checkarg_dropout_variant v =
     (if v \<in> set DROPOUT_VARIANTS then Inr v
      else Inl (ArgumentError (py_opt_str v) (map py_opt_str DROPOUT_VARIANTS)))"

section \<open>Parts shared by the two builders\<close>

text \<open>
  \<^verbatim>\<open>Input(shape=(None, None, c))\<close> when the spatial shape is left open,
  \<^verbatim>\<open>Input(shape=(h_hr, w_hr, c))\<close> otherwise.
\<close>

definition Input :: "bool \<Rightarrow> int \<times> int \<Rightarrow> int \<Rightarrow> world \<Rightarrow> node \<times> world" where
  "Input unconstrained hr c w =
     call_layer
       (Layer ''Input'' []
          [(''shape'', PyTuple (if unconstrained then [PyNone, PyNone, PyInt c]
                                else [PyInt (fst hr), PyInt (snd hr), PyInt c]))]) [] w"

text \<open>
  The auxiliary input is created first and only when \<^verbatim>\<open>auxvar_array_is_given\<close>; otherwise
  the name \<^verbatim>\<open>s_in\<close> stays unbound (\<open>None\<close> here). Lines 43-52 and 156-165; the two builders
  differ in the condition under which the shape is left open.
\<close>

definition pin_inputs ::
  "bool \<Rightarrow> bool \<Rightarrow> 'a pin_args_scheme \<Rightarrow> world \<Rightarrow> (node option \<times> node) \<times> world" where
  "pin_inputs unconstrained auxvar_array_is_given a w =
     (let (s_in, w) =
            (if auxvar_array_is_given then
               (let (s, w) = Input unconstrained (hr_size a) (n_aux_channels a) w
                in (Some s, w))
             else (None, w));
          (x_in, w) = Input unconstrained (hr_size a) (n_channels a) w
      in ((s_in, x_in), w))"

text \<open>Lines 99-101 and 202-204.\<close>

definition localized_conv_layer :: "'a pin_args_scheme \<Rightarrow> node \<Rightarrow> world \<Rightarrow> node \<times> world" where
  "localized_conv_layer a x w =
     (if localcon_layer a then
        (let (lws, w) =
               call_layer (Layer ''LocalizedConvBlock'' []
                             [(''filters'', PyInt 2), (''use_bias'', PyBool True)]) [x] w
         in call_layer (Layer ''Concatenate'' [] []) [x, lws] w)
      else (x, w))"

text \<open>
  Lines 105-109 and 208-211. \<open>nf\<close> is the current value of the variable \<^verbatim>\<open>n_filters\<close>.
\<close>

definition aux_channels ::
  "'a pin_args_scheme \<Rightarrow> int \<Rightarrow> bool \<Rightarrow> node option \<Rightarrow> node \<Rightarrow> world
   \<Rightarrow> (py_error + node) \<times> world" where
  "aux_channels a nf auxvar_array_is_given s_in x w =
     (if auxvar_array_is_given then
        (case s_in of
           None \<Rightarrow> (Inl UnboundLocalError, w)
         | Some s_in \<Rightarrow>
             (let (s, w) =
                    call_layer (Layer ''ConvBlock'' [PyInt nf]
                                  [(''activation'', activation a), (''dropout_rate'', PyInt 0),
                                   (''normalization'', normalization a),
                                   (''attention'', PyBool False)]) [s_in] w;
                  (x, w) = call_layer (Layer ''Concatenate'' [] []) [x, s] w
              in (Inr x, w)))
      else (Inr x, w))"

text \<open>Lines 113-117 and 215-219.\<close>

definition last_conv_layers ::
  "'a pin_args_scheme \<Rightarrow> int \<Rightarrow> node \<Rightarrow> world \<Rightarrow> node \<times> world" where
  "last_conv_layers a nf x w =
     (let (x, w) =
            call_layer (Layer ''ConvBlock'' [PyInt nf]
                          [(''activation'', PyNone), (''dropout_rate'', PyFloat (dropout_rate a)),
                           (''normalization'', normalization a),
                           (''attention'', PyBool True)]) [x] w
      in call_layer (Layer ''ConvBlock'' [PyInt (n_channels_out a)]
                       [(''activation'', output_activation a), (''dropout_rate'', PyInt 0),
                        (''normalization'', normalization a),
                        (''attention'', PyBool False)]) [x] w)"

text \<open>Lines 119-123 and 221-225.\<close>

definition Model ::
  "'a pin_args_scheme \<Rightarrow> bool \<Rightarrow> node option \<Rightarrow> node \<Rightarrow> node \<Rightarrow> py_error + keras_model" where
  "Model a auxvar_array_is_given s_in x_in x =
     (let model_name = backbone_block a @ ''_pin'' in
      if auxvar_array_is_given then
        (case s_in of
           None \<Rightarrow> Inl UnboundLocalError
         | Some s_in \<Rightarrow> Inr \<lparr>inputs = [x_in, s_in], outputs = x, name = model_name\<rparr>)
      else Inr \<lparr>inputs = [x_in], outputs = x, name = model_name\<rparr>)"

text \<open>Everything from the localized convolutional layer to the end of either builder.\<close>

definition pin_tail ::
  "'a pin_args_scheme \<Rightarrow> int \<Rightarrow> bool \<Rightarrow> node option \<Rightarrow> node \<Rightarrow> node \<Rightarrow> world
   \<Rightarrow> (py_error + keras_model) \<times> world" where
  "pin_tail a nf auxvar_array_is_given s_in x_in x w =
     (let (x, w) = localized_conv_layer a x w in
      case aux_channels a nf auxvar_array_is_given s_in x w of
        (Inl e, w) \<Rightarrow> (Inl e, w)
      | (Inr x, w) \<Rightarrow>
          (let (x, w) = last_conv_layers a nf x w
           in (Model a auxvar_array_is_given s_in x_in x, w)))"

section \<open>\<^verbatim>\<open>net_pin\<close>\<close>

definition block_kwargs :: "'a pin_args_scheme \<Rightarrow> (string \<times> pyval) list" where
  "block_kwargs a =
     [(''activation'', activation a), (''dropout_rate'', PyFloat (dropout_rate a)),
      (''dropout_variant'', py_opt_str (dropout_variant a)),
      (''normalization'', normalization a), (''attention'', PyBool (attention a))]"

text \<open>The body of the loop over \<^verbatim>\<open>range(n_blocks)\<close>, lines 58-73.\<close>

definition net_pin_block :: "'a pin_args_scheme \<Rightarrow> node \<Rightarrow> world \<Rightarrow> node \<times> world" where
  "net_pin_block a b w =
     (if backbone_block a = ''convnet'' then
        call_layer (Layer ''ConvBlock'' [PyInt (n_filters a)] (block_kwargs a)) [b] w
      else if backbone_block a = ''resnet'' then
        call_layer (Layer ''ResidualBlock'' [PyInt (n_filters a)] (block_kwargs a)) [b] w
      else if backbone_block a = ''densenet'' then
        (let (b, w) =
               call_layer (Layer ''DenseBlock'' [PyInt (n_filters a)] (block_kwargs a)) [b] w
         in call_layer (Layer ''TransitionBlock'' [PyInt (n_filters a div 2)] []) [b] w)
      else (b, w))"

text \<open>
  Lines 76-88. The last two branches bind \<^verbatim>\<open>b\<close> to the layer object itself; the layer is
  not called.
\<close>

definition net_pin_dropout :: "'a pin_args_scheme \<Rightarrow> node \<Rightarrow> world \<Rightarrow> node \<times> world" where
  "net_pin_dropout a b w =
     (if 0 < dropout_rate a then
        (if dropout_variant a = None then
           call_layer (Layer ''Dropout'' [PyFloat (dropout_rate a)] []) [b] w
         else if dropout_variant a = Some ''gaussian'' then
           call_layer (Layer ''GaussianDropout'' [PyFloat (dropout_rate a)] []) [b] w
         else if dropout_variant a = Some ''spatial'' then
           call_layer (Layer ''SpatialDropout2D'' [PyFloat (dropout_rate a)] []) [b] w
         else if dropout_variant a = Some ''mcdrop'' then
           call_layer (Layer ''MCDropout'' [PyFloat (dropout_rate a)] []) [b] w
         else if dropout_variant a = Some ''mcgaussiandrop'' then
           (Unapplied (Layer ''MCGaussianDropout'' [PyFloat (dropout_rate a)] []), w)
         else if dropout_variant a = Some ''mcspatialdrop'' then
           (Unapplied (Layer ''MCSpatialDropout2D'' [PyFloat (dropout_rate a)] []), w)
         else (b, w))
      else (b, w))"

text \<open>Lines 90-95.\<close>

definition net_pin_merge :: "'a pin_args_scheme \<Rightarrow> node \<Rightarrow> node \<Rightarrow> world \<Rightarrow> node \<times> world" where
  "net_pin_merge a x b w =
     (if backbone_block a = ''convnet'' then (b, w)
      else if backbone_block a = ''resnet'' then call_layer (Layer ''Add'' [] []) [x, b] w
      else if backbone_block a = ''densenet'' then
        call_layer (Layer ''Concatenate'' [] []) [x, b] w
      else (x, w))"

definition Conv2D_3x3 :: "int \<Rightarrow> layer" where
  "Conv2D_3x3 nf = Layer ''Conv2D'' [PyInt nf, PyTuple [PyInt 3, PyInt 3]] [(''padding'', PyStr ''same'')]"

definition net_pin :: "pin_args \<Rightarrow> world \<Rightarrow> (py_error + keras_model) \<times> world" where
  "net_pin a0 w0 =
     (case checkarg_backbone (backbone_block a0) of
        Inl e \<Rightarrow> (Inl e, w0)
      | Inr bb \<Rightarrow>
     (case checkarg_dropout_variant (dropout_variant a0) of
        Inl e \<Rightarrow> (Inl e, w0)
      | Inr dv \<Rightarrow>
     (let a = a0\<lparr>backbone_block := bb, dropout_variant := dv\<rparr>;
          auxvar_array_is_given = (0 < n_aux_channels a);
          ((s_in, x_in), w) = pin_inputs (\<not> localcon_layer a) auxvar_array_is_given a w0;
          (x, w) = call_layer (Conv2D_3x3 (n_filters a)) [x_in] w;
          b = x;
          (b, w) = foldl (\<lambda>(b, w) i. net_pin_block a b w) (b, w) [0..<nat (n_blocks a)];
          (b, w) = call_layer (Conv2D_3x3 (n_filters a)) [b] w;
          (b, w) = net_pin_dropout a b w;
          (x, w) = net_pin_merge a x b w
      in pin_tail a (n_filters a) auxvar_array_is_given s_in x_in x w)))"

section \<open>\<^verbatim>\<open>unet_pin\<close>\<close>

text \<open>
  The body of the encoder loop, lines 173-177. The loop state is \<^verbatim>\<open>x\<close>,
  \<^verbatim>\<open>enconding_filters\<close>, \<^verbatim>\<open>n_filters_list\<close> and \<^verbatim>\<open>n_filters\<close>.
\<close>

type_synonym encoder_state = "node \<times> node list \<times> int list \<times> int"

definition encoder_stage ::
  "'a pin_args_scheme \<Rightarrow> encoder_state \<times> world \<Rightarrow> nat \<Rightarrow> encoder_state \<times> world" where
  "encoder_stage a st i =
     (case st of ((x, enconding_filters, n_filters_list, nf), w) \<Rightarrow>
        (let (y, w) =
               call_layer
                 (Layer ''EncoderBlock''
                    [PyInt nf, activation a, PyFloat (dropout_rate a),
                     py_opt_str (dropout_variant a), normalization a, PyBool (attention a)]
                    [(''name_suffix'', PyStr (str (int i + 1)))]) [x] w
         in ((Item 0 y, enconding_filters @ [Item 1 y], n_filters_list @ [nf],
              min 256 (nf * 2)), w)))"

text \<open>Lines 180-182. No \<^verbatim>\<open>attention\<close> argument is passed.\<close>

definition bottleneck :: "'a pin_args_scheme \<Rightarrow> int \<Rightarrow> node \<Rightarrow> world \<Rightarrow> node \<times> world" where
  "bottleneck a nf x w =
     call_layer (Layer ''ConvBlock'' [PyInt nf]
                   [(''activation'', activation a), (''dropout_rate'', PyFloat (dropout_rate a)),
                    (''dropout_variant'', py_opt_str (dropout_variant a)),
                    (''name'', PyStr ''Bottleneck''), (''normalization'', PyNone)]) [x] w"

text \<open>Lines 188-193; a method that is none of the three leaves \<^verbatim>\<open>x\<close> as it is.\<close>

definition decoder_upsample ::
  "unet_args \<Rightarrow> int \<Rightarrow> nat \<Rightarrow> node \<Rightarrow> world \<Rightarrow> node \<times> world" where
  "decoder_upsample a nf j x w =
     (if decoder_upsampling a = ''spc'' then
        call_layer (Layer ''SubpixelConvolutionBlock'' [PyInt 2, PyInt nf]
                      [(''name_suffix'', PyStr (str (int j + 1)))]) [x] w
      else if decoder_upsampling a = ''rc'' then
        call_layer (Layer ''UpSampling2D'' [PyInt 2]
                      [(''interpolation'', PyStr ''bilinear''),
                       (''name'', PyStr (''BilinearUpsampling'' @ str (int j + 1)))]) [x] w
      else if decoder_upsampling a = ''dc'' then
        call_layer (Layer ''DeconvolutionBlock'' [PyInt 2, PyInt nf, activation a]
                      [(''name_suffix'', PyStr (str (int j + 1)))]) [x] w
      else (x, w))"

text \<open>
  The decoder loop, lines 186-198, over \<^verbatim>\<open>enumerate(reversed(enconding_filters))\<close>;
  \<^verbatim>\<open>n_filters_list\<close> has been reversed before. \<^verbatim>\<open>n_filters_list[j]\<close> raises \<^verbatim>\<open>IndexError\<close>
  beyond the end of the list. The loop returns \<^verbatim>\<open>x\<close> and \<^verbatim>\<open>n_filters\<close>.
\<close>

fun decoder_loop ::
  "unet_args \<Rightarrow> int list \<Rightarrow> (nat \<times> node) list \<Rightarrow> node \<Rightarrow> int \<Rightarrow> world
   \<Rightarrow> (py_error + node \<times> int) \<times> world" where
  "decoder_loop a n_filters_list [] x nf w = (Inr (x, nf), w)"
| "decoder_loop a n_filters_list ((j, skip_connection) # rest) x nf w =
     (if j < length n_filters_list then
        (let nf = n_filters_list ! j;
             (x, w) = decoder_upsample a nf j x w;
             (x, w) = call_layer
                        (Layer ''PadConcat'' []
                           [(''name_suffix'', PyStr (''_SkipConnection'' @ str (int j + 1)))])
                        [x, skip_connection] w;
             (x, w) = call_layer
                        (Layer ''ConvBlock'' [PyInt nf]
                           [(''activation'', activation a),
                            (''dropout_rate'', PyFloat (dropout_rate a)),
                            (''dropout_variant'', py_opt_str (dropout_variant a)),
                            (''normalization'', normalization a),
                            (''attention'', PyBool (attention a)),
                            (''name'', PyStr (''DecoderConvBlock'' @ str (int j + 1)))]) [x] w
         in decoder_loop a n_filters_list rest x nf w)
      else (Inl IndexError, w))"

definition unet_pin :: "unet_args \<Rightarrow> world \<Rightarrow> (py_error + keras_model) \<times> world" where
  "unet_pin a0 w0 =
     (case checkarg_backbone (backbone_block a0) of
        Inl e \<Rightarrow> (Inl e, w0)
      | Inr bb \<Rightarrow>
     (case checkarg_dropout_variant (dropout_variant a0) of
        Inl e \<Rightarrow> (Inl e, w0)
      | Inr dv \<Rightarrow>
     (case check_nblocks (hr_size a0) (n_blocks a0) w0 of
        (Inl e, w) \<Rightarrow> (Inl e, w)
      | (Inr nb, w) \<Rightarrow>
     (let a = a0\<lparr>backbone_block := bb, dropout_variant := dv, n_blocks := nb\<rparr>;
          (h_hr, w_hr) = hr_size a;
          auxvar_array_is_given = (0 < n_aux_channels a);
          ((s_in, x_in), w) =
            pin_inputs (\<not> localcon_layer a \<and> h_hr = w_hr) auxvar_array_is_given a w;
          x = x_in;
          ((x, enconding_filters, n_filters_list, nf), w) =
            foldl (encoder_stage a) ((x, [], [], n_filters a), w) [0..<nat (n_blocks a)];
          (x, w) = bottleneck a nf x w;
          n_filters_list = rev n_filters_list
      in case decoder_loop a n_filters_list (enumerate 0 (rev enconding_filters)) x nf w of
           (Inl e, w) \<Rightarrow> (Inl e, w)
         | (Inr (x, nf), w) \<Rightarrow> pin_tail a nf auxvar_array_is_given s_in x_in x w))))"

section \<open>Observing the graph that a builder leaves behind\<close>

text \<open>
  The claims speak of stages, of what a stage consumes and of the arguments a block is
  built with. All of this is read off the calls a builder has added to the graph.
\<close>

definition add_calls :: "call list \<Rightarrow> world \<Rightarrow> world" where
  "add_calls cs w = w\<lparr>graph := graph w @ cs\<rparr>"

definition calls_of :: "string \<Rightarrow> call list \<Rightarrow> call list" where
  "calls_of c cs = filter (\<lambda>k. cls (fst k) = c) cs"

text \<open>The calls that running a builder from the world \<open>w0\<close> adds to the graph.\<close>

definition calls_made :: "(world \<Rightarrow> 'a \<times> world) \<Rightarrow> world \<Rightarrow> call list" where
  "calls_made f w0 = calls_since w0 (snd (f w0))"

text \<open>The filter count a block is built with: its first positional argument.\<close>

definition layer_filters :: "layer \<Rightarrow> int option" where
  "layer_filters l = (case args l of PyInt f # _ \<Rightarrow> Some f | _ \<Rightarrow> None)"

definition layer_name :: "layer \<Rightarrow> pyval option" where
  "layer_name l = map_of (kwargs l) ''name''"

definition is_bottleneck :: "call \<Rightarrow> bool" where
  "is_bottleneck k = (layer_name (fst k) = Some (PyStr ''Bottleneck''))"

text \<open>The convolution block of a decoder stage is named \<^verbatim>\<open>DecoderConvBlock<j+1>\<close>.\<close>

definition is_decoder_conv :: "call \<Rightarrow> bool" where
  "is_decoder_conv k =
     (case layer_name (fst k) of
        Some (PyStr s) \<Rightarrow> take 16 s = ''DecoderConvBlock''
      | _ \<Rightarrow> False)"

text \<open>
  The skip tensor an encoder call records is the second component of its output; the
  skip tensor a \<^verbatim>\<open>PadConcat\<close> call consumes is its second input, and the upsampled tensor
  is its first.
\<close>

definition skip_output :: "call \<Rightarrow> node" where
  "skip_output k = Item 1 (Apply (fst k) (snd k))"

definition skip_input :: "call \<Rightarrow> node option" where
  "skip_input k = (case snd k of [x, s] \<Rightarrow> Some s | _ \<Rightarrow> None)"

definition upsampled_input :: "call \<Rightarrow> node option" where
  "upsampled_input k = (case snd k of [x, s] \<Rightarrow> Some x | _ \<Rightarrow> None)"

text \<open>
  A node is the output of an upsampling block built with factor \<open>2\<close> and filter count \<open>f\<close>
  when the layer that produced it has these as its first two positional arguments.
\<close>

definition upsamples_to :: "int \<Rightarrow> node \<Rightarrow> bool" where
  "upsamples_to f x =
     (case x of
        Apply l _ \<Rightarrow> (case args l of PyInt s # PyInt g # _ \<Rightarrow> s = 2 \<and> g = f | _ \<Rightarrow> False)
      | _ \<Rightarrow> False)"

text \<open>
  The auxiliary fusion: a \<^verbatim>\<open>Concatenate\<close> call whose second input is a \<^verbatim>\<open>ConvBlock\<close> applied to
  an input tensor.
\<close>

definition is_input :: "node \<Rightarrow> bool" where
  "is_input x = (case x of Apply l [] \<Rightarrow> cls l = ''Input'' | _ \<Rightarrow> False)"

definition is_aux_fusion :: "call \<Rightarrow> bool" where
  "is_aux_fusion k =
     (cls (fst k) = ''Concatenate'' \<and>
      (case snd k of
         [x, Apply l [s]] \<Rightarrow> cls l = ''ConvBlock'' \<and> is_input s
       | _ \<Rightarrow> False))"

text \<open>The filter count of the next encoder stage, as line 177 computes it.\<close>

definition next_filters :: "int \<Rightarrow> int" where "next_filters f = min 256 (f * 2)"

text \<open>The layer whose call produced a node.\<close>

definition producer :: "node \<Rightarrow> layer option" where
  "producer x = (case x of Apply l _ \<Rightarrow> Some l | _ \<Rightarrow> None)"

text \<open>The classes of the calls that each part of \<^verbatim>\<open>unet_pin\<close> makes.\<close>

definition upsampling_classes :: "string set" where
  "upsampling_classes = {''SubpixelConvolutionBlock'', ''UpSampling2D'', ''DeconvolutionBlock''}"

definition decoder_classes :: "string set" where
  "decoder_classes = upsampling_classes \<union> {''PadConcat'', ''ConvBlock''}"

definition tail_classes :: "string set" where
  "tail_classes = {''LocalizedConvBlock'', ''Concatenate'', ''ConvBlock''}"

subsection \<open>Example configurations\<close>

definition net_example :: pin_args where
  "net_example =
     \<lparr>backbone_block = ''resnet'', n_channels = 1, n_aux_channels = 2, n_filters = 32,
      n_blocks = 4, hr_size = (64, 64), n_channels_out = 1, activation = PyStr ''relu'',
      dropout_rate = 1 / 5, dropout_variant = Some ''spatial'', normalization = PyNone,
      attention = True, output_activation = PyNone, localcon_layer = False\<rparr>"

definition unet_example :: unet_args where
  "unet_example =
     \<lparr>backbone_block = ''resnet'', n_channels = 1, n_aux_channels = 2, n_filters = 32,
      n_blocks = 4, hr_size = (64, 64), n_channels_out = 1, activation = PyStr ''relu'',
      dropout_rate = 1 / 5, dropout_variant = Some ''spatial'', normalization = PyNone,
      attention = True, output_activation = PyNone, localcon_layer = False,
      decoder_upsampling = ''rc''\<rparr>"

section \<open>Properties of the depth validator\<close>

lemma nblocks_too_large_nonneg:
  "0 \<le> pw \<Longrightarrow> nblocks_too_large shape pw = Inr (\<not> depth_fits shape pw)"
  by (auto simp: nblocks_too_large_def floordiv_pow2_lt2_def depth_fits_def split: bool.splits)

lemma check_nblocks_fits:
  "0 \<le> pw \<Longrightarrow> depth_fits shape pw \<Longrightarrow> check_nblocks shape pw w = (Inr pw, w)"
  by (subst check_nblocks.simps) (simp add: nblocks_too_large_nonneg)

lemma check_nblocks_step:
  "0 \<le> pw \<Longrightarrow> \<not> depth_fits shape pw \<Longrightarrow>
   check_nblocks shape pw w = check_nblocks shape (pw - 1) (print (nblocks_msg pw) w)"
  by (subst check_nblocks.simps) (simp add: nblocks_too_large_nonneg)

text \<open>
  Counting down from a requested depth \<open>n \<ge> 0\<close>, the loop stops at the first depth that
  fits, provided depth 0 fits.
\<close>

lemma check_nblocks_largest:
  assumes "depth_fits shape 0"
  shows "\<exists>e. fst (check_nblocks shape (int n) w) = Inr e \<and> 0 \<le> e \<and> e \<le> int n
           \<and> depth_fits shape e
           \<and> (\<forall>e'. e < e' \<and> e' \<le> int n \<longrightarrow> \<not> depth_fits shape e')"
proof (induction n arbitrary: w)
  case 0
  then show ?case using assms by (auto simp: check_nblocks_fits)
next
  case (Suc n)
  show ?case
  proof (cases "depth_fits shape (int (Suc n))")
    case True
    then show ?thesis by (auto simp add: check_nblocks_fits simp del: of_nat_Suc)
  next
    case False
    then have eq: "check_nblocks shape (int (Suc n)) w
        = check_nblocks shape (int n) (print (nblocks_msg (int (Suc n))) w)"
      using check_nblocks_step [of "int (Suc n)" shape w] by simp
    from Suc.IH [of "print (nblocks_msg (int (Suc n))) w"]
    obtain e where e:
      "fst (check_nblocks shape (int n) (print (nblocks_msg (int (Suc n))) w)) = Inr e"
      "0 \<le> e" "e \<le> int n" "depth_fits shape e"
      "\<forall>e'. e < e' \<and> e' \<le> int n \<longrightarrow> \<not> depth_fits shape e'"
      by blast
    have "\<forall>e'. e < e' \<and> e' \<le> int (Suc n) \<longrightarrow> \<not> depth_fits shape e'"
    proof (intro allI impI)
      fix e' assume b: "e < e' \<and> e' \<le> int (Suc n)"
      then have "e' \<le> int n \<or> e' = int (Suc n)" by auto
      then show "\<not> depth_fits shape e'" using e(5) False b by blast
    qed
    with e eq show ?thesis by (intro exI [of _ e]) auto
  qed
qed

text \<open>
  C1. For every shape \<open>(h, w)\<close> with \<open>h \<ge> 2\<close> and \<open>w \<ge> 2\<close> and every requested depth
  \<open>d \<ge> 0\<close>, \<^verbatim>\<open>_check_nblocks\<close> returns (the function is total, and the result is not an
  error) the largest depth \<open>e \<le> d\<close> with \<open>h div 2\<^sup>e \<ge> 2\<close> and \<open>w div 2\<^sup>e \<ge> 2\<close>, which is
  the first such depth counting down from \<open>d\<close>. Shape \<open>(64, 64)\<close> with requested depth 6
  gives 5, and shape \<open>(256, 256)\<close> with requested depth 6 gives 6.
\<close>

theorem check_nblocks_largest_depth:
  "(2 \<le> h \<and> 2 \<le> w \<and> 0 \<le> d \<longrightarrow>
      (\<exists>e. fst (check_nblocks (h, w) d s) = Inr e \<and> 0 \<le> e \<and> e \<le> d
          \<and> 2 \<le> h div 2 ^ nat e \<and> 2 \<le> w div 2 ^ nat e
          \<and> (\<forall>e'. e < e' \<and> e' \<le> d \<longrightarrow> \<not> (2 \<le> h div 2 ^ nat e' \<and> 2 \<le> w div 2 ^ nat e'))))
   \<and> fst (check_nblocks (64, 64) 6 s) = Inr 5
   \<and> fst (check_nblocks (256, 256) 6 s) = Inr 6"
proof (intro conjI impI)
  assume a: "2 \<le> h \<and> 2 \<le> w \<and> 0 \<le> d"
  then have "depth_fits (h, w) 0" by (simp add: depth_fits_def)
  from check_nblocks_largest [OF this, of "nat d" s] a
  show "\<exists>e. fst (check_nblocks (h, w) d s) = Inr e \<and> 0 \<le> e \<and> e \<le> d
          \<and> 2 \<le> h div 2 ^ nat e \<and> 2 \<le> w div 2 ^ nat e
          \<and> (\<forall>e'. e < e' \<and> e' \<le> d \<longrightarrow> \<not> (2 \<le> h div 2 ^ nat e' \<and> 2 \<le> w div 2 ^ nat e'))"
    by (simp add: depth_fits_def)
next
  show "fst (check_nblocks (64, 64) 6 s) = Inr 5"
    by (simp add: check_nblocks_step check_nblocks_fits depth_fits_def)
next
  show "fst (check_nblocks (256, 256) 6 s) = Inr 6"
    by (simp add: check_nblocks_step check_nblocks_fits depth_fits_def)
qed

theorem check_nblocks_largest_depth_witness:
  "(2::int) \<le> 9 \<and> (2::int) \<le> 20 \<and> (0::int) \<le> 4
   \<and> fst (check_nblocks (9, 20) 4 empty_world) = Inr 2
   \<and> (\<exists>e. fst (check_nblocks (9, 20) 4 empty_world) = Inr e \<and> 0 \<le> e \<and> e \<le> 4
          \<and> 2 \<le> (9::int) div 2 ^ nat e \<and> 2 \<le> (20::int) div 2 ^ nat e
          \<and> (\<forall>e'. e < e' \<and> e' \<le> 4
                \<longrightarrow> \<not> (2 \<le> (9::int) div 2 ^ nat e' \<and> 2 \<le> (20::int) div 2 ^ nat e')))"
proof -
  have v: "fst (check_nblocks (9, 20) 4 empty_world) = Inr 2"
    by (simp add: check_nblocks_step check_nblocks_fits depth_fits_def)
  from check_nblocks_largest_depth [of 9 20 4 empty_world] v show ?thesis by simp
qed

text \<open>
  C9, as stated, fails: a positive dimension below 2 keeps the loop condition true at
  depth 0, and the loop goes on to depth \<open>-1\<close>, where \<^verbatim>\<open>1 // 2**-1\<close> is \<^verbatim>\<open>2.0\<close>.
\<close>

theorem check_nblocks_positive_shape_negative_depth:
  "fst (check_nblocks (1, 1) 0 empty_world) = Inr (- 1)"
  apply (subst check_nblocks.simps)
  apply (simp add: nblocks_too_large_def floordiv_pow2_lt2_def)
  apply (subst check_nblocks.simps)
  apply (simp add: nblocks_too_large_def floordiv_pow2_lt2_def float_overflows_def)
  done

text \<open>
  C9, amended. For every shape whose two dimensions are both at least 2 and every
  requested depth \<open>d \<ge> 0\<close>, \<^verbatim>\<open>_check_nblocks\<close> returns a non-negative depth, because the
  loop condition is false at depth 0.
\<close>

theorem check_nblocks_nonnegative:
  "2 \<le> h \<Longrightarrow> 2 \<le> w \<Longrightarrow> 0 \<le> d \<Longrightarrow>
   nblocks_too_large (h, w) 0 = Inr False
   \<and> (\<exists>e. fst (check_nblocks (h, w) d s) = Inr e \<and> 0 \<le> e)"
proof -
  assume a: "2 \<le> h" "2 \<le> w" "0 \<le> d"
  then have f: "depth_fits (h, w) 0" by (simp add: depth_fits_def)
  then have "nblocks_too_large (h, w) 0 = Inr False"
    by (simp add: nblocks_too_large_nonneg)
  moreover from check_nblocks_largest [OF f, of "nat d" s] a
  have "\<exists>e. fst (check_nblocks (h, w) d s) = Inr e \<and> 0 \<le> e" by auto
  ultimately show ?thesis by simp
qed

theorem check_nblocks_nonnegative_witness:
  "(2::int) \<le> 2 \<and> (2::int) \<le> 3 \<and> (0::int) \<le> 7
   \<and> nblocks_too_large (2, 3) 0 = Inr False
   \<and> (\<exists>e. fst (check_nblocks (2, 3) 7 empty_world) = Inr e \<and> 0 \<le> e)"
  using check_nblocks_nonnegative [of 2 3 7 empty_world] by simp

section \<open>The calls a builder adds to the graph\<close>

lemma add_calls_simps [simp]:
  "graph (add_calls cs w) = graph w @ cs"
  "stdout (add_calls cs w) = stdout w"
  "add_calls cs2 (add_calls cs1 w) = add_calls (cs1 @ cs2) w"
  "add_calls [] w = w"
  by (simp_all add: add_calls_def)

lemma call_layer_add: "call_layer l xs w = (Apply l xs, add_calls [(l, xs)] w)"
  by (simp add: call_layer_def add_calls_def)

lemma calls_since_add [simp]: "graph w1 = graph w0 \<Longrightarrow> calls_since w0 (add_calls cs w1) = cs"
  by (simp add: calls_since_def)

lemma check_nblocks_graph: "graph (snd (check_nblocks shape pw w)) = graph w"
proof (induction shape pw w rule: check_nblocks.induct)
  case (1 shape pw w)
  show ?case
  proof (cases "nblocks_too_large shape pw")
    case (Inl e)
    then show ?thesis by (subst check_nblocks.simps) simp
  next
    case (Inr b)
    show ?thesis
    proof (cases b)
      case True
      with Inr "1.IH" [of b] show ?thesis
        by (subst check_nblocks.simps) (simp add: print_def)
    next
      case False
      with Inr show ?thesis by (subst check_nblocks.simps) simp
    qed
  qed
qed

lemma check_nblocks_fst: "fst (check_nblocks shape pw w) = fst (check_nblocks shape pw w')"
proof (induction shape pw w arbitrary: w' rule: check_nblocks.induct)
  case (1 shape pw w)
  show ?case
  proof (cases "nblocks_too_large shape pw")
    case (Inl e)
    then show ?thesis by (simp add: check_nblocks.simps [of shape pw])
  next
    case (Inr b)
    show ?thesis
    proof (cases b)
      case True
      with Inr "1.IH" [of b] show ?thesis
        by (simp add: check_nblocks.simps [of shape pw])
    next
      case False
      with Inr show ?thesis by (simp add: check_nblocks.simps [of shape pw])
    qed
  qed
qed

lemma encoder_loop:
  "foldl (encoder_stage a) ((x0, ef0, fl0, nf0), w) [0..<n] = ((x, ef, fl, nf), w') \<Longrightarrow>
   \<exists>cs. w' = add_calls cs w \<and> length cs = n
      \<and> (\<forall>k\<in>set cs. cls (fst k) = ''EncoderBlock'' \<and> layer_name (fst k) = None)
      \<and> map (\<lambda>k. layer_filters (fst k)) cs = map (\<lambda>i. Some ((next_filters ^^ i) nf0)) [0..<n]
      \<and> ef = ef0 @ map skip_output cs
      \<and> fl = fl0 @ map (\<lambda>i. (next_filters ^^ i) nf0) [0..<n]
      \<and> nf = (next_filters ^^ n) nf0
      \<and> (n = 0 \<longrightarrow> x = x0)"
proof (induction n arbitrary: x ef fl nf w')
  case 0
  then show ?case by (intro exI [of _ "[]"]) simp
next
  case (Suc n)
  obtain x1 ef1 fl1 nf1 w1 where
    st: "foldl (encoder_stage a) ((x0, ef0, fl0, nf0), w) [0..<n] = ((x1, ef1, fl1, nf1), w1)"
    by (metis surj_pair)
  from Suc.IH [OF st] obtain cs where cs:
    "w1 = add_calls cs w" "length cs = n"
    "\<forall>k\<in>set cs. cls (fst k) = ''EncoderBlock'' \<and> layer_name (fst k) = None"
    "map (\<lambda>k. layer_filters (fst k)) cs = map (\<lambda>i. Some ((next_filters ^^ i) nf0)) [0..<n]"
    "ef1 = ef0 @ map skip_output cs"
    "fl1 = fl0 @ map (\<lambda>i. (next_filters ^^ i) nf0) [0..<n]"
    "nf1 = (next_filters ^^ n) nf0"
    by blast
  from Suc.prems st have step: "encoder_stage a ((x1, ef1, fl1, nf1), w1) n = ((x, ef, fl, nf), w')"
    by simp
  define k where "k = (Layer ''EncoderBlock''
                    [PyInt nf1, activation a, PyFloat (dropout_rate a),
                     py_opt_str (dropout_variant a), normalization a, PyBool (attention a)]
                    [(''name_suffix'', PyStr (str (int n + 1)))], [x1])"
  from step have r: "w' = add_calls [k] w1" "ef = ef1 @ [skip_output k]" "fl = fl1 @ [nf1]"
    "nf = next_filters nf1"
    by (auto simp: encoder_stage_def call_layer_add k_def skip_output_def next_filters_def)
  have kp: "cls (fst k) = ''EncoderBlock''" "layer_name (fst k) = None"
    "layer_filters (fst k) = Some nf1"
    by (simp_all add: k_def layer_name_def layer_filters_def)
  show ?case
    apply (intro exI [of _ "cs @ [k]"])
    using cs r kp apply simp
    done
qed

lemma calls_of_simps [simp]:
  "calls_of c [] = []"
  "calls_of c (k # ks) = (if cls (fst k) = c then k # calls_of c ks else calls_of c ks)"
  "calls_of c (ks @ ks') = calls_of c ks @ calls_of c ks'"
  by (simp_all add: calls_of_def)

lemma calls_of_all: "\<forall>k\<in>set ks. cls (fst k) = c \<Longrightarrow> calls_of c ks = ks"
  by (induction ks) auto

lemma calls_of_none: "\<forall>k\<in>set ks. cls (fst k) \<noteq> c \<Longrightarrow> calls_of c ks = []"
  by (induction ks) auto

lemma filter_none: "\<forall>k\<in>set ks. \<not> P k \<Longrightarrow> filter P ks = []"
  by (induction ks) auto

lemma decoder_upsample_calls:
  "\<exists>ups. decoder_upsample a f j x w = (fst (decoder_upsample a f j x empty_world), add_calls ups w)
     \<and> (\<forall>k\<in>set ups. cls (fst k) \<in> upsampling_classes \<and> \<not> is_bottleneck k \<and> \<not> is_decoder_conv k)"
proof -
  consider "decoder_upsampling a = ''spc''" | "decoder_upsampling a = ''rc''"
    | "decoder_upsampling a = ''dc''"
    | "decoder_upsampling a \<noteq> ''spc''" "decoder_upsampling a \<noteq> ''rc''" "decoder_upsampling a \<noteq> ''dc''"
    by blast
  then show ?thesis
  proof cases
    case 1
    then show ?thesis
      by (intro exI [of _ "[(Layer ''SubpixelConvolutionBlock'' [PyInt 2, PyInt f]
                      [(''name_suffix'', PyStr (str (int j + 1)))], [x])]"])
         (simp add: decoder_upsample_def call_layer_add upsampling_classes_def is_bottleneck_def
            is_decoder_conv_def layer_name_def)
  next
    case 2
    then show ?thesis
      by (intro exI [of _ "[(Layer ''UpSampling2D'' [PyInt 2]
                      [(''interpolation'', PyStr ''bilinear''),
                       (''name'', PyStr (''BilinearUpsampling'' @ str (int j + 1)))], [x])]"])
         (simp add: decoder_upsample_def call_layer_add upsampling_classes_def is_bottleneck_def
            is_decoder_conv_def layer_name_def)
  next
    case 3
    then show ?thesis
      by (intro exI [of _ "[(Layer ''DeconvolutionBlock'' [PyInt 2, PyInt f, activation a]
                      [(''name_suffix'', PyStr (str (int j + 1)))], [x])]"])
         (simp add: decoder_upsample_def call_layer_add upsampling_classes_def is_bottleneck_def
            is_decoder_conv_def layer_name_def)
  next
    case 4
    then show ?thesis
      by (intro exI [of _ "[]"]) (simp add: decoder_upsample_def)
  qed
qed

lemma decoder_upsample_fst:
  "fst (decoder_upsample a f j x w) = fst (decoder_upsample a f j x empty_world)"
  using decoder_upsample_calls [of a f j x w] by auto

lemma decoder_loop_calls:
  "k + length skips \<le> length nfl \<Longrightarrow>
   \<exists>x' cs us. decoder_loop a nfl (enumerate k skips) x nf w
        = (Inr (x', if skips = [] then nf else nfl ! (k + length skips - 1)), add_calls cs w)
      \<and> (\<forall>c\<in>set cs. cls (fst c) \<in> decoder_classes \<and> \<not> is_bottleneck c
             \<and> (is_decoder_conv c \<longleftrightarrow> cls (fst c) = ''ConvBlock''))
      \<and> map skip_input (calls_of ''PadConcat'' cs) = map Some skips
      \<and> map (\<lambda>c. layer_filters (fst c)) (calls_of ''ConvBlock'' cs)
          = map Some (take (length skips) (drop k nfl))
      \<and> map upsampled_input (calls_of ''PadConcat'' cs) = map Some us
      \<and> list_all2 (\<lambda>jf u. \<exists>y. u = fst (decoder_upsample a (snd jf) (fst jf) y empty_world))
           (zip [k..<k + length skips] (take (length skips) (drop k nfl))) us
      \<and> (skips = [] \<longrightarrow> x' = x \<and> cs = [])"
proof (induction skips arbitrary: k x nf w)
  case Nil
  show ?case by (intro exI [of _ x] exI [of _ "[]"]) simp
next
  case (Cons s rest)
  then have k: "k < length nfl" and rest: "Suc k + length rest \<le> length nfl" by simp_all
  define f where "f = nfl ! k"
  obtain ups where ups:
    "decoder_upsample a f k x w = (fst (decoder_upsample a f k x empty_world), add_calls ups w)"
    "\<forall>c\<in>set ups. cls (fst c) \<in> upsampling_classes \<and> \<not> is_bottleneck c \<and> \<not> is_decoder_conv c"
    using decoder_upsample_calls [of a f k x w] by blast
  define u where "u = fst (decoder_upsample a f k x empty_world)"
  define pc where "pc = (Layer ''PadConcat'' []
      [(''name_suffix'', PyStr (''_SkipConnection'' @ str (int k + 1)))], [u, s])"
  define cb where "cb = (Layer ''ConvBlock'' [PyInt f]
                           [(''activation'', activation a),
                            (''dropout_rate'', PyFloat (dropout_rate a)),
                            (''dropout_variant'', py_opt_str (dropout_variant a)),
                            (''normalization'', normalization a),
                            (''attention'', PyBool (attention a)),
                            (''name'', PyStr (''DecoderConvBlock'' @ str (int k + 1)))],
                         [Apply (fst pc) (snd pc)])"
  define x3 where "x3 = Apply (fst cb) (snd cb)"
  define w3 where "w3 = add_calls (ups @ [pc, cb]) w"
  have step: "decoder_loop a nfl (enumerate k (s # rest)) x nf w
      = decoder_loop a nfl (enumerate (Suc k) rest) x3 f w3"
    using k ups(1)
    by (simp add: f_def [symmetric] Let_def call_layer_add u_def pc_def cb_def x3_def w3_def)
  from Cons.IH [OF rest, of x3 f w3] obtain x' cs us where ih:
    "decoder_loop a nfl (enumerate (Suc k) rest) x3 f w3
        = (Inr (x', if rest = [] then f else nfl ! (Suc k + length rest - 1)), add_calls cs w3)"
    "\<forall>c\<in>set cs. cls (fst c) \<in> decoder_classes \<and> \<not> is_bottleneck c
             \<and> (is_decoder_conv c \<longleftrightarrow> cls (fst c) = ''ConvBlock'')"
    "map skip_input (calls_of ''PadConcat'' cs) = map Some rest"
    "map (\<lambda>c. layer_filters (fst c)) (calls_of ''ConvBlock'' cs)
          = map Some (take (length rest) (drop (Suc k) nfl))"
    "map upsampled_input (calls_of ''PadConcat'' cs) = map Some us"
    "list_all2 (\<lambda>jf u. \<exists>y. u = fst (decoder_upsample a (snd jf) (fst jf) y empty_world))
           (zip [Suc k..<Suc k + length rest] (take (length rest) (drop (Suc k) nfl))) us"
    by blast
  have upc: "calls_of ''PadConcat'' ups = []" "calls_of ''ConvBlock'' ups = []"
    using ups(2) by (auto intro!: calls_of_none simp: upsampling_classes_def)
  have upd: "\<forall>c\<in>set ups. cls (fst c) \<in> decoder_classes \<and> \<not> is_bottleneck c
             \<and> (is_decoder_conv c \<longleftrightarrow> cls (fst c) = ''ConvBlock'')"
    using ups(2) by (auto simp: decoder_classes_def upsampling_classes_def)
  have pcp: "cls (fst pc) = ''PadConcat''" "\<not> is_bottleneck pc" "\<not> is_decoder_conv pc"
    "skip_input pc = Some s" "upsampled_input pc = Some u"
    by (simp_all add: pc_def is_bottleneck_def is_decoder_conv_def layer_name_def
        skip_input_def upsampled_input_def)
  have cbp: "cls (fst cb) = ''ConvBlock''" "\<not> is_bottleneck cb" "is_decoder_conv cb"
    "layer_filters (fst cb) = Some f"
    by (simp_all add: cb_def is_bottleneck_def is_decoder_conv_def layer_name_def
        layer_filters_def)
  have dr: "take (Suc (length rest)) (drop k nfl) = f # take (length rest) (drop (Suc k) nfl)"
    using k by (simp add: f_def Cons_nth_drop_Suc [symmetric])
  have up: "[k..<k + Suc (length rest)] = k # [Suc k..<Suc k + length rest]"
    unfolding add_Suc_right add_Suc by (rule upt_conv_Cons) simp
  have last: "(if rest = [] then f else nfl ! (Suc k + length rest - 1))
      = nfl ! (k + length (s # rest) - 1)"
    by (cases rest) (simp_all add: f_def)
  show ?case
    apply (intro exI [of _ x'] exI [of _ "ups @ [pc, cb] @ cs"] exI [of _ "u # us"])
    apply (intro conjI)
    subgoal using step ih(1) last by (simp add: w3_def)
    subgoal using upd ih(2) pcp cbp by (auto simp: decoder_classes_def)
    subgoal using upc ih(3) pcp cbp by simp
    subgoal using upc ih(4) pcp cbp dr by simp
    subgoal using upc ih(5) pcp cbp by simp
    subgoal using ih(6) dr up by (auto simp: u_def)
    subgoal by simp
    done
qed

lemma pin_inputs_calls:
  "\<exists>ls lx. cls ls = ''Input'' \<and> cls lx = ''Input''
      \<and> layer_name ls = None \<and> layer_name lx = None
      \<and> pin_inputs u aux a w
          = ((if aux then Some (Apply ls []) else None, Apply lx []),
             add_calls ((if aux then [(ls, [])] else []) @ [(lx, [])]) w)"
  by (intro exI [of _ "Layer ''Input'' []
          [(''shape'', PyTuple (if u then [PyNone, PyNone, PyInt (n_aux_channels a)]
                                else [PyInt (fst (hr_size a)), PyInt (snd (hr_size a)),
                                      PyInt (n_aux_channels a)]))]"]
        exI [of _ "Layer ''Input'' []
          [(''shape'', PyTuple (if u then [PyNone, PyNone, PyInt (n_channels a)]
                                else [PyInt (fst (hr_size a)), PyInt (snd (hr_size a)),
                                      PyInt (n_channels a)]))]"])
     (simp add: pin_inputs_def Input_def call_layer_add layer_name_def)

lemma localized_conv_layer_calls:
  "\<exists>x1 cs1. localized_conv_layer a x w = (x1, add_calls cs1 w)
     \<and> (\<forall>c\<in>set cs1. cls (fst c) \<in> tail_classes \<and> layer_name (fst c) = None
            \<and> \<not> is_aux_fusion c)"
proof (cases "localcon_layer a")
  case True
  define l where "l = Layer ''LocalizedConvBlock'' []
                             [(''filters'', PyInt 2), (''use_bias'', PyBool True)]"
  show ?thesis
    by (intro exI [of _ "Apply (Layer ''Concatenate'' [] []) [x, Apply l [x]]"]
          exI [of _ "[(l, [x]), (Layer ''Concatenate'' [] [], [x, Apply l [x]])]"])
       (simp add: True localized_conv_layer_def call_layer_add tail_classes_def layer_name_def
          is_aux_fusion_def l_def)
next
  case False
  then show ?thesis
    by (intro exI [of _ x] exI [of _ "[]"]) (simp add: localized_conv_layer_def)
qed

lemma aux_channels_calls:
  assumes "aux \<longrightarrow> (\<exists>l. s_in = Some (Apply l []) \<and> cls l = ''Input'')"
  shows "\<exists>x2 cs2. aux_channels a nf aux s_in x w = (Inr x2, add_calls cs2 w)
     \<and> (\<forall>c\<in>set cs2. cls (fst c) \<in> tail_classes \<and> layer_name (fst c) = None)
     \<and> (filter is_aux_fusion cs2 \<noteq> [] \<longleftrightarrow> aux)"
proof (cases aux)
  case True
  with assms obtain li where li: "s_in = Some (Apply li [])" "cls li = ''Input''" by blast
  define l where "l = Layer ''ConvBlock'' [PyInt nf]
                                  [(''activation'', activation a), (''dropout_rate'', PyInt 0),
                                   (''normalization'', normalization a),
                                   (''attention'', PyBool False)]"
  show ?thesis
    by (intro exI [of _ "Apply (Layer ''Concatenate'' [] []) [x, Apply l [Apply li []]]"]
          exI [of _ "[(l, [Apply li []]),
                      (Layer ''Concatenate'' [] [], [x, Apply l [Apply li []]])]"])
       (simp add: True li aux_channels_def call_layer_add tail_classes_def layer_name_def
          is_aux_fusion_def is_input_def l_def)
next
  case False
  then show ?thesis
    by (intro exI [of _ x] exI [of _ "[]"]) (simp add: aux_channels_def)
qed

lemma last_conv_layers_calls:
  "\<exists>x3 cs3. last_conv_layers a nf x w = (x3, add_calls cs3 w)
     \<and> (\<forall>c\<in>set cs3. cls (fst c) \<in> tail_classes \<and> layer_name (fst c) = None
            \<and> \<not> is_aux_fusion c)"
proof -
  define l1 where "l1 = Layer ''ConvBlock'' [PyInt nf]
                          [(''activation'', PyNone), (''dropout_rate'', PyFloat (dropout_rate a)),
                           (''normalization'', normalization a),
                           (''attention'', PyBool True)]"
  define l2 where "l2 = Layer ''ConvBlock'' [PyInt (n_channels_out a)]
                       [(''activation'', output_activation a), (''dropout_rate'', PyInt 0),
                        (''normalization'', normalization a),
                        (''attention'', PyBool False)]"
  show ?thesis
    by (intro exI [of _ "Apply l2 [Apply l1 [x]]"]
          exI [of _ "[(l1, [x]), (l2, [Apply l1 [x]])]"])
       (simp add: last_conv_layers_def call_layer_add tail_classes_def layer_name_def
          is_aux_fusion_def l1_def l2_def)
qed

lemma pin_tail_calls:
  assumes "aux \<longrightarrow> (\<exists>l. s_in = Some (Apply l []) \<and> cls l = ''Input'')"
  shows "\<exists>x' cs. pin_tail a nf aux s_in x_in x w
          = (Inr \<lparr>inputs = x_in # (if aux then [the s_in] else []), outputs = x',
                  name = backbone_block a @ ''_pin''\<rparr>, add_calls cs w)
      \<and> (\<forall>c\<in>set cs. cls (fst c) \<in> tail_classes \<and> layer_name (fst c) = None)
      \<and> (filter is_aux_fusion cs \<noteq> [] \<longleftrightarrow> aux)"
proof -
  obtain x1 cs1 where l: "localized_conv_layer a x w = (x1, add_calls cs1 w)"
    "\<forall>c\<in>set cs1. cls (fst c) \<in> tail_classes \<and> layer_name (fst c) = None \<and> \<not> is_aux_fusion c"
    using localized_conv_layer_calls [of a x w] by blast
  obtain x2 cs2 where a: "aux_channels a nf aux s_in x1 (add_calls cs1 w)
        = (Inr x2, add_calls cs2 (add_calls cs1 w))"
    "\<forall>c\<in>set cs2. cls (fst c) \<in> tail_classes \<and> layer_name (fst c) = None"
    "filter is_aux_fusion cs2 \<noteq> [] \<longleftrightarrow> aux"
    using aux_channels_calls [OF assms, of a nf x1 "add_calls cs1 w"] by blast
  obtain x3 cs3 where c: "last_conv_layers a nf x2 (add_calls cs2 (add_calls cs1 w))
        = (x3, add_calls cs3 (add_calls cs2 (add_calls cs1 w)))"
    "\<forall>c\<in>set cs3. cls (fst c) \<in> tail_classes \<and> layer_name (fst c) = None \<and> \<not> is_aux_fusion c"
    using last_conv_layers_calls [of a nf x2 "add_calls cs2 (add_calls cs1 w)"] by blast
  have m: "Model a aux s_in x_in x3
      = Inr \<lparr>inputs = x_in # (if aux then [the s_in] else []), outputs = x3,
              name = backbone_block a @ ''_pin''\<rparr>"
    using assms by (auto simp: Model_def)
  have f1: "filter is_aux_fusion cs1 = []" using l(2) by (auto intro: filter_none)
  have f3: "filter is_aux_fusion cs3 = []" using c(2) by (auto intro: filter_none)
  have eq: "pin_tail a nf aux s_in x_in x w
      = (Inr \<lparr>inputs = x_in # (if aux then [the s_in] else []), outputs = x3,
              name = backbone_block a @ ''_pin''\<rparr>, add_calls (cs1 @ cs2 @ cs3) w)"
    using l(1) a(1) c(1) m by (simp add: pin_tail_def)
  show ?thesis
    apply (intro exI [of _ x3] exI [of _ "cs1 @ cs2 @ cs3"])
    using eq l(2) a(2,3) c(2) f1 f3 by auto
qed

lemma unet_pin_run:
  assumes bb: "checkarg_backbone (backbone_block a0) = Inr bb"
    and dv: "checkarg_dropout_variant (dropout_variant a0) = Inr dv"
    and cn: "check_nblocks (hr_size a0) (n_blocks a0) w0 = (Inr e, w1)"
  obtains m w ics ecs bn xb dcs tcs us where
    "unet_pin a0 w0 = (Inr m, w)"
    "calls_since w0 w = ics @ ecs @ [bn] @ dcs @ tcs"
    "length ics = (if 0 < n_aux_channels a0 then 2 else 1)"
    "\<forall>c\<in>set ics. cls (fst c) = ''Input'' \<and> layer_name (fst c) = None"
    "length (inputs m) = length ics"
    "\<forall>x\<in>set (inputs m). is_input x"
    "name m = bb @ ''_pin''"
    "length ecs = nat e"
    "\<forall>c\<in>set ecs. cls (fst c) = ''EncoderBlock'' \<and> layer_name (fst c) = None"
    "map (\<lambda>c. layer_filters (fst c)) ecs
       = map (\<lambda>i. Some ((next_filters ^^ i) (n_filters a0))) [0..<nat e]"
    "bn = (Layer ''ConvBlock'' [PyInt ((next_filters ^^ nat e) (n_filters a0))]
             [(''activation'', activation a0), (''dropout_rate'', PyFloat (dropout_rate a0)),
              (''dropout_variant'', py_opt_str dv),
              (''name'', PyStr ''Bottleneck''), (''normalization'', PyNone)], [xb])"
    "nat e = 0 \<longrightarrow> xb = hd (inputs m)"
    "\<forall>c\<in>set dcs. cls (fst c) \<in> decoder_classes \<and> \<not> is_bottleneck c
             \<and> (is_decoder_conv c \<longleftrightarrow> cls (fst c) = ''ConvBlock'')"
    "map skip_input (calls_of ''PadConcat'' dcs) = map Some (rev (map skip_output ecs))"
    "map (\<lambda>c. layer_filters (fst c)) (calls_of ''ConvBlock'' dcs)
       = map Some (rev (map (\<lambda>i. (next_filters ^^ i) (n_filters a0)) [0..<nat e]))"
    "map upsampled_input (calls_of ''PadConcat'' dcs) = map Some us"
    "list_all2 (\<lambda>jf u. \<exists>y. u = fst (decoder_upsample a0 (snd jf) (fst jf) y empty_world))
        (zip [0..<nat e] (rev (map (\<lambda>i. (next_filters ^^ i) (n_filters a0)) [0..<nat e]))) us"
    "nat e = 0 \<longrightarrow> dcs = []"
    "\<forall>c\<in>set tcs. cls (fst c) \<in> tail_classes \<and> layer_name (fst c) = None"
    "filter is_aux_fusion tcs \<noteq> [] \<longleftrightarrow> 0 < n_aux_channels a0"
proof -
  have g1: "graph w1 = graph w0" using check_nblocks_graph [of "hr_size a0" "n_blocks a0" w0] cn by simp
  define a where "a = a0\<lparr>backbone_block := bb, dropout_variant := dv, n_blocks := e\<rparr>"
  define aux where "aux = (0 < n_aux_channels a)"
  define u where "u = (\<not> localcon_layer a \<and> fst (hr_size a) = snd (hr_size a))"
  have sel: "n_aux_channels a = n_aux_channels a0" "n_filters a = n_filters a0"
    "n_blocks a = e" "activation a = activation a0" "dropout_rate a = dropout_rate a0"
    "dropout_variant a = dv" "backbone_block a = bb"
    by (simp_all add: a_def)
  obtain ls lx where inp: "cls ls = ''Input''" "cls lx = ''Input''"
      "layer_name ls = None" "layer_name lx = None"
      "pin_inputs u aux a w1
          = ((if aux then Some (Apply ls []) else None, Apply lx []),
             add_calls ((if aux then [(ls, [])] else []) @ [(lx, [])]) w1)"
    using pin_inputs_calls [of u aux a w1] by blast
  define ics :: "call list" where "ics = (if aux then [(ls, [])] else []) @ [(lx, [])]"
  define s_in where "s_in = (if aux then Some (Apply ls []) else None)"
  define x_in where "x_in = Apply lx []"
  obtain x2 ef fl nf w2 where st:
    "foldl (encoder_stage a) ((x_in, [], [], n_filters a), add_calls ics w1)
         [0..<nat (n_blocks a)]
       = ((x2, ef, fl, nf), w2)"
    by (metis surj_pair)
  from encoder_loop [OF st] obtain ecs where ecs:
    "w2 = add_calls ecs (add_calls ics w1)" "length ecs = nat (n_blocks a)"
    "\<forall>k\<in>set ecs. cls (fst k) = ''EncoderBlock'' \<and> layer_name (fst k) = None"
    "map (\<lambda>k. layer_filters (fst k)) ecs
       = map (\<lambda>i. Some ((next_filters ^^ i) (n_filters a))) [0..<nat (n_blocks a)]"
    "ef = [] @ map skip_output ecs"
    "fl = [] @ map (\<lambda>i. (next_filters ^^ i) (n_filters a)) [0..<nat (n_blocks a)]"
    "nf = (next_filters ^^ nat (n_blocks a)) (n_filters a)"
    "nat (n_blocks a) = 0 \<longrightarrow> x2 = x_in"
    by (elim exE conjE) (rule that; assumption)
  define bl where "bl = Layer ''ConvBlock'' [PyInt nf]
             [(''activation'', activation a0), (''dropout_rate'', PyFloat (dropout_rate a0)),
              (''dropout_variant'', py_opt_str dv),
              (''name'', PyStr ''Bottleneck''), (''normalization'', PyNone)]"
  have bn: "bottleneck a nf x2 w2 = (Apply bl [x2], add_calls [(bl, [x2])] w2)"
    by (simp add: bottleneck_def call_layer_add bl_def sel)
  have len: "0 + length (rev ef) \<le> length (rev fl)" using ecs by simp
  from decoder_loop_calls [OF len, of a "Apply bl [x2]" nf "add_calls [(bl, [x2])] w2"]
  obtain x3 dcs us where dec:
    "decoder_loop a (rev fl) (enumerate 0 (rev ef)) (Apply bl [x2]) nf (add_calls [(bl, [x2])] w2)
        = (Inr (x3, if rev ef = [] then nf else rev fl ! (0 + length (rev ef) - 1)),
           add_calls dcs (add_calls [(bl, [x2])] w2))"
    "\<forall>c\<in>set dcs. cls (fst c) \<in> decoder_classes \<and> \<not> is_bottleneck c
             \<and> (is_decoder_conv c \<longleftrightarrow> cls (fst c) = ''ConvBlock'')"
    "map skip_input (calls_of ''PadConcat'' dcs) = map Some (rev ef)"
    "map (\<lambda>c. layer_filters (fst c)) (calls_of ''ConvBlock'' dcs)
          = map Some (take (length (rev ef)) (drop 0 (rev fl)))"
    "map upsampled_input (calls_of ''PadConcat'' dcs) = map Some us"
    "list_all2 (\<lambda>jf u. \<exists>y. u = fst (decoder_upsample a (snd jf) (fst jf) y empty_world))
           (zip [0..<0 + length (rev ef)] (take (length (rev ef)) (drop 0 (rev fl)))) us"
    "rev ef = [] \<longrightarrow> x3 = Apply bl [x2] \<and> dcs = []"
    by (elim exE conjE) (rule that; assumption)
  define nf3 where "nf3 = (if rev ef = [] then nf else rev fl ! (0 + length (rev ef) - 1))"
  have sin: "aux \<longrightarrow> (\<exists>l. s_in = Some (Apply l []) \<and> cls l = ''Input'')"
    using inp(1) by (simp add: s_in_def)
  from pin_tail_calls [OF sin, of a nf3 x_in x3 "add_calls dcs (add_calls [(bl, [x2])] w2)"]
  obtain x4 tcs where tl:
    "pin_tail a nf3 aux s_in x_in x3 (add_calls dcs (add_calls [(bl, [x2])] w2))
          = (Inr \<lparr>inputs = x_in # (if aux then [the s_in] else []), outputs = x4,
                  name = backbone_block a @ ''_pin''\<rparr>,
             add_calls tcs (add_calls dcs (add_calls [(bl, [x2])] w2)))"
    "\<forall>c\<in>set tcs. cls (fst c) \<in> tail_classes \<and> layer_name (fst c) = None"
    "filter is_aux_fusion tcs \<noteq> [] \<longleftrightarrow> aux"
    by (elim exE conjE) (rule that; assumption)
  have inp5: "pin_inputs u aux a w1 = ((s_in, x_in), add_calls ics w1)"
    using inp(5) by (simp add: ics_def s_in_def x_in_def)
  have dec1: "decoder_loop a (rev fl) (enumerate 0 (rev ef)) (Apply bl [x2]) nf
        (add_calls [(bl, [x2])] w2)
        = (Inr (x3, nf3), add_calls dcs (add_calls [(bl, [x2])] w2))"
    using dec(1) by (simp only: nf3_def)
  have eq: "unet_pin a0 w0
      = (Inr \<lparr>inputs = x_in # (if aux then [the s_in] else []), outputs = x4,
                  name = backbone_block a @ ''_pin''\<rparr>,
         add_calls (ics @ ecs @ [(bl, [x2])] @ dcs @ tcs) w1)"
    apply (simp only: unet_pin_def bb dv cn sum.case prod.case Let_def)
    apply (simp only: a_def [symmetric])
    apply (simp only: case_prod_beta [of _ "hr_size a"])
    apply (simp only: aux_def [symmetric] u_def [symmetric])
    apply (simp only: inp5 prod.case st bn dec1 tl(1) sum.case)
    apply (simp add: ecs(1))
    done
  define m where "m = \<lparr>inputs = x_in # (if aux then [the s_in] else []), outputs = x4,
                  name = backbone_block a @ ''_pin''\<rparr>"
  define w where "w = add_calls (ics @ ecs @ [(bl, [x2])] @ dcs @ tcs) w1"
  have efe: "rev ef = [] \<longleftrightarrow> nat e = 0" using ecs(2,5) sel(3) by auto
  have du: "decoder_upsample a = decoder_upsample a0"
    by (intro ext) (simp add: decoder_upsample_def a_def)
  show ?thesis
    apply (rule that [where m = m and w = w and ics = ics and ecs = ecs
                 and bn = "(bl, [x2])" and xb = x2 and dcs = dcs and tcs = tcs and us = us])
    subgoal using eq by (simp add: m_def w_def)
    subgoal using g1 by (simp add: w_def)
    subgoal by (simp add: ics_def aux_def sel)
    subgoal using inp(1-4) by (simp add: ics_def)
    subgoal by (simp add: m_def ics_def)
    subgoal using inp(1,2) by (simp add: m_def s_in_def x_in_def is_input_def)
    subgoal by (simp add: m_def sel)
    subgoal using ecs(2) by (simp add: sel)
    subgoal by (rule ecs(3))
    subgoal using ecs(4) by (simp add: sel)
    subgoal using ecs(7) by (simp add: bl_def sel)
    subgoal using ecs(8) by (simp add: m_def sel)
    subgoal by (rule dec(2))
    subgoal using dec(3) ecs(5) by (simp add: rev_map)
    subgoal using dec(4) ecs(2,5,6) by (simp add: sel rev_map)
    subgoal by (rule dec(5))
    subgoal using dec(6) ecs(2,5,6) by (simp add: sel rev_map du)
    subgoal using dec(7) efe by simp
    subgoal by (rule tl(2))
    subgoal using tl(3) by (simp add: aux_def sel)
    done
qed

end
